theory Spec2Isabelle
  imports Complex_Main "HOL-Library.Log_Nat"
begin

section \<open>JavaScript numbers\<close>

text \<open>
  A Number is an IEEE 754 double. \<open>JFinite s m e\<close> is the finite double
  \<open>(-1)\<^sup>s \<times> m \<times> 2\<^sup>e\<close>, kept in the form of the binary encoding: either
  \<open>2\<^sup>5\<^sup>2 \<le> m < 2\<^sup>5\<^sup>3\<close> and \<open>-1074 \<le> e \<le> 971\<close> (normal), or \<open>m < 2\<^sup>5\<^sup>2\<close> and
  \<open>e = -1074\<close> (subnormal and zero), so that equal doubles are equal terms.
  \<open>JInfinity s\<close> is the infinity of sign \<open>s\<close> (\<open>True\<close> is negative).
\<close>

datatype jsnum = JNaN | JInfinity bool | JFinite bool int int

text \<open>
  The integer nearest to \<open>num / den\<close> (for \<open>0 \<le> num\<close>, \<open>0 < den\<close>), the even one on a
  tie.
\<close>

definition nearest_even :: "int \<Rightarrow> int \<Rightarrow> int" where
  "nearest_even num den =
     (let qt = num div den;
          r = num mod den
      in if 2 * r < den then qt
         else if den < 2 * r then qt + 1
         else qt + qt mod 2)"

text \<open>
  \<open>round_double s p q\<close> is the double nearest to \<open>p / q\<close> (for \<open>0 \<le> p\<close>, \<open>0 < q\<close>),
  ties to the even significand, with sign \<open>s\<close>: the rounding of every arithmetic
  operation and of every numeric literal. \<open>e0\<close> is the binary exponent of \<open>p / q\<close>
  and \<open>e\<close> the exponent of the last bit of the significand.
\<close>

definition round_double :: "bool \<Rightarrow> int \<Rightarrow> int \<Rightarrow> jsnum" where
  "round_double s p q =
     (if p = 0 then JFinite s 0 (- 1074)
      else
        let d = bitlen p - bitlen q;
            e0 = (if q * 2 ^ nat d \<le> p * 2 ^ nat (- d) then d else d - 1);
            e = max (e0 - 52) (- 1074);
            m = nearest_even (p * 2 ^ nat (- e)) (q * 2 ^ nat e);
            m' = (if m = 2 ^ 53 then 2 ^ 52 else m);
            e' = (if m = 2 ^ 53 then e + 1 else e)
        in if 971 < e' then JInfinity s else JFinite s m' e')"

text \<open>
  A decimal literal of the source: \<open>1169.09\<close> is \<open>decimal_literal 116909 2\<close>; a
  literal with a minus sign is the unary minus of the literal.
\<close>

definition decimal_literal :: "int \<Rightarrow> nat \<Rightarrow> jsnum" where
  "decimal_literal digits scale = round_double False digits (10 ^ scale)"

fun number_unary_minus :: "jsnum \<Rightarrow> jsnum" where
  "number_unary_minus JNaN = JNaN"
| "number_unary_minus (JInfinity s) = JInfinity (\<not> s)"
| "number_unary_minus (JFinite s m e) = JFinite (\<not> s) m e"

text \<open>The operator \<open>*\<close> on two Numbers.\<close>

fun number_multiply :: "jsnum \<Rightarrow> jsnum \<Rightarrow> jsnum" where
  "number_multiply JNaN y = JNaN"
| "number_multiply x JNaN = JNaN"
| "number_multiply (JInfinity s) (JInfinity t) = JInfinity (s \<noteq> t)"
| "number_multiply (JInfinity s) (JFinite t m e) =
     (if m = 0 then JNaN else JInfinity (s \<noteq> t))"
| "number_multiply (JFinite s m e) (JInfinity t) =
     (if m = 0 then JNaN else JInfinity (s \<noteq> t))"
| "number_multiply (JFinite s m e) (JFinite t n f) =
     round_double (s \<noteq> t) (m * n * 2 ^ nat (e + f)) (2 ^ nat (- (e + f)))"

definition signed :: "bool \<Rightarrow> int \<Rightarrow> int" where
  "signed s m = (if s then - m else m)"

text \<open>The operator \<open><\<close> on two Numbers: false when either is NaN, and \<open>-0 < 0\<close> is false.\<close>

fun number_less_than :: "jsnum \<Rightarrow> jsnum \<Rightarrow> bool" where
  "number_less_than JNaN y = False"
| "number_less_than x JNaN = False"
| "number_less_than (JInfinity s) (JInfinity t) = (s \<and> \<not> t)"
| "number_less_than (JInfinity s) (JFinite t n f) = s"
| "number_less_than (JFinite s m e) (JInfinity t) = (\<not> t)"
| "number_less_than (JFinite s m e) (JFinite t n f) =
     (signed s (m * 2 ^ nat (e - min e f)) < signed t (n * 2 ^ nat (f - min e f)))"

fun is_finite :: "jsnum \<Rightarrow> bool" where
  "is_finite (JFinite s m e) = True"
| "is_finite x = False"

section \<open>Strings and errors\<close>

datatype js_error = TypeError | RangeError | Error string

definition digit_char :: "int \<Rightarrow> char" where
  "digit_char d = ''0123456789'' ! nat d"

function decimal_digits :: "int \<Rightarrow> string" where
  "decimal_digits n =
     (if n < 10 then [digit_char n]
      else decimal_digits (n div 10) @ [digit_char (n mod 10)])"
  by pat_completeness auto
termination
  by (relation "measure nat") auto

declare decimal_digits.simps [simp del]

fun is_prefix_of :: "string \<Rightarrow> string \<Rightarrow> bool" where
  "is_prefix_of [] s = True"
| "is_prefix_of (c # cs) [] = False"
| "is_prefix_of (c # cs) (d # ds) = (c = d \<and> is_prefix_of cs ds)"

text \<open>
  \<open>String.prototype.includes\<close>: \<open>string_includes s t\<close> is \<open>s.includes(t)\<close>, the
  search for \<open>t\<close> at every position of \<open>s\<close> from the left.
\<close>

fun string_includes :: "string \<Rightarrow> string \<Rightarrow> bool" where
  "string_includes [] t = is_prefix_of t []"
| "string_includes (c # cs) t = (is_prefix_of t (c # cs) \<or> string_includes cs t)"

text \<open>The integer nearest to \<open>p / q\<close> (for \<open>0 \<le> p\<close>, \<open>0 < q\<close>), the larger one on a tie.\<close>

definition nearest_integer :: "int \<Rightarrow> int \<Rightarrow> int" where
  "nearest_integer p q = (2 * p + q) div (2 * q)"

text \<open>
  The digits of \<open>n\<close>, padded with zeros to \<open>f + 1\<close> digits, with a point before the last
  \<open>f\<close> digits when \<open>f\<close> is not 0.
\<close>

definition fixed_notation :: "int \<Rightarrow> nat \<Rightarrow> string" where
  "fixed_notation n f =
     (let ds = decimal_digits n;
          padded = (if f \<noteq> 0 \<and> length ds \<le> f
                    then replicate (f + 1 - length ds) (CHR ''0'') @ ds else ds);
          k = length padded
      in if f \<noteq> 0 then take (k - f) padded @ ''.'' @ drop (k - f) padded else padded)"

text \<open>
  \<open>Number.prototype.toFixed\<close>, step by step as ECMAScript gives it: a RangeError for
  a digit count outside 0..100; the names of NaN and the infinities; the sign (none
  for \<open>-0\<close>); for a magnitude of at least \<open>10\<^sup>2\<^sup>1\<close> the text of \<open>Number::toString\<close>,
  which is the argument \<open>to_string\<close>; otherwise the integer \<open>n\<close> with \<open>n / 10\<^sup>f\<close> nearest
  to the exact value of the double (the larger \<open>n\<close> on a tie), in fixed notation.
\<close>

definition number_toFixed :: "(jsnum \<Rightarrow> string) \<Rightarrow> jsnum \<Rightarrow> int \<Rightarrow> js_error + string" where
  "number_toFixed to_string x fractionDigits =
     (if fractionDigits < 0 \<or> 100 < fractionDigits then Inl RangeError
      else case x of
        JNaN \<Rightarrow> Inr ''NaN''
      | JInfinity s \<Rightarrow> Inr (if s then ''-Infinity'' else ''Infinity'')
      | JFinite s m e \<Rightarrow>
          let f = nat fractionDigits;
              sign = (if s \<and> m \<noteq> 0 then ''-'' else '''');
              num = m * 2 ^ nat e;
              den = 2 ^ nat (- e)
          in if 10 ^ 21 * den \<le> num then Inr (sign @ to_string (JFinite False m e))
             else Inr (sign @ fixed_notation (nearest_integer (num * 10 ^ f) den) f))"

section \<open>Values and the host platform\<close>

datatype jsval =
    VUndefined
  | VNull
  | VBoolean bool
  | VNumber jsnum
  | VString string
  | VBigInt int
  | VSymbol nat
  | VObject nat
  | VFunction nat

fun typeof :: "jsval \<Rightarrow> string" where
  "typeof VUndefined = ''undefined''"
| "typeof VNull = ''object''"
| "typeof (VBoolean b) = ''boolean''"
| "typeof (VNumber n) = ''number''"
| "typeof (VString s) = ''string''"
| "typeof (VBigInt i) = ''bigint''"
| "typeof (VSymbol a) = ''symbol''"
| "typeof (VObject a) = ''object''"
| "typeof (VFunction a) = ''function''"

text \<open>The objects that \<open>VObject\<close> and \<open>VFunction\<close> refer to, by address.\<close>

type_synonym heap = "nat \<Rightarrow> (string \<times> jsval) list option"

record number_format_options =
  style :: string
  currency :: string
  minimumFractionDigits :: nat
  maximumFractionDigits :: nat
  number_notation :: string

text \<open>
  What the source calls and does not contain: \<open>intl_number_format locale options x\<close> is
  \<open>new Intl.NumberFormat(locale, options).format(x)\<close>, whose text comes from the
  locale data of the host, and \<open>number_to_string\<close> is \<open>Number::toString\<close>. Both return
  a string for every Number.
\<close>

record platform =
  intl_number_format :: "string \<Rightarrow> number_format_options \<Rightarrow> jsnum \<Rightarrow> string"
  number_to_string :: "jsnum \<Rightarrow> string"

section \<open>The metric table and the series projector\<close>

text \<open>
  A metric record is an object with the string property \<open>metric\<close> and one Number
  property per period. \<open>periods\<close> holds the period properties in the order in which
  the object enumerates its own keys (integer-like keys ascending, then the other
  keys in creation order).
\<close>

record metric_record =
  metric :: string
  periods :: "(string \<times> jsnum) list"

definition neg_literal :: "int \<Rightarrow> nat \<Rightarrow> jsnum" where
  "neg_literal digits scale = number_unary_minus (decimal_literal digits scale)"

definition data :: "metric_record list" where
  "data =
    [\<lparr>metric = ''Revenue (DEFAULT)'',
      periods =
        [(''2017'', decimal_literal 116909 2), (''2018'', decimal_literal 137801 2),
         (''2019'', decimal_literal 126831 2), (''2020'', decimal_literal 78274 2),
         (''2021'', decimal_literal 105922 2), (''2022'', decimal_literal 173874 2),
         (''2023'', decimal_literal 167662 2), (''2024'', decimal_literal 168733 2),
         (''2025'', decimal_literal 165986 2), (''2026'', decimal_literal 164990 2),
         (''2027'', decimal_literal 171755 2), (''2028'', decimal_literal 178625 2)]\<rparr>,
     \<lparr>metric = ''NOPBT (DEFAULT)'',
      periods =
        [(''2017'', decimal_literal 43627 2), (''2018'', decimal_literal 49675 2),
         (''2019'', decimal_literal 39449 2), (''2020'', neg_literal 2674 2),
         (''2021'', decimal_literal 29902 2), (''2022'', decimal_literal 83702 2),
         (''2023'', decimal_literal 54970 2), (''2024'', decimal_literal 46213 2),
         (''2025'', decimal_literal 61581 2), (''2026'', decimal_literal 61211 2),
         (''2027'', decimal_literal 63721 2), (''2028'', decimal_literal 66270 2)]\<rparr>,
     \<lparr>metric = ''ROIC (DEFAULT)'',
      periods =
        [(''2017'', decimal_literal 5420 4), (''2018'', decimal_literal 6380 4),
         (''2019'', decimal_literal 3690 4), (''2020'', neg_literal 210 4),
         (''2021'', decimal_literal 2510 4), (''2022'', decimal_literal 6120 4),
         (''2023'', decimal_literal 3460 4), (''2024'', decimal_literal 2570 4),
         (''2025'', decimal_literal 3390 4), (''2026'', decimal_literal 3370 4),
         (''2027'', decimal_literal 3460 4), (''2028'', decimal_literal 3550 4)]\<rparr>]"

text \<open>\<open>xs[i]\<close> on an array: \<open>None\<close> is \<open>undefined\<close>, the value of an index out of range.\<close>

definition array_index :: "'a list \<Rightarrow> nat \<Rightarrow> 'a option" where
  "array_index xs i = (if i < length xs then Some (xs ! i) else None)"

text \<open>
  \<open>Object.keys\<close>: a TypeError on \<open>undefined\<close>. The key \<open>metric\<close> is among the keys;
  the source filters it out, wherever it stands.
\<close>

definition object_keys :: "metric_record option \<Rightarrow> js_error + string list" where
  "object_keys obj =
     (case obj of None \<Rightarrow> Inl TypeError
      | Some r \<Rightarrow> Inr (map fst (periods r) @ [''metric'']))"

text \<open>
  What reading a property of a metric record gives: \<open>undefined\<close>, a Number, or, for a
  name the record does not own and its prototype has, the value found there.
\<close>

datatype property_value = PUndefined | PNumber jsnum | PInherited string

text \<open>
  A metric record is a plain object: its prototype is \<open>Object.prototype\<close>, with the
  properties the language gives it, all of them functions but \<open>__proto__\<close>, whose
  value is \<open>Object.prototype\<close> itself.
\<close>

definition object_prototype_names :: "string list" where
  "object_prototype_names =
     [''constructor'', ''hasOwnProperty'', ''isPrototypeOf'', ''propertyIsEnumerable'',
      ''toLocaleString'', ''toString'', ''valueOf'', ''__proto__'',
      ''__defineGetter__'', ''__defineSetter__'', ''__lookupGetter__'', ''__lookupSetter__'']"

text \<open>
  \<open>r[key]\<close> on a record, for a key other than \<open>metric\<close>: the own property if there is
  one, else the property of the prototype if it has one of that name, else
  \<open>undefined\<close>.
\<close>

definition read_period :: "metric_record \<Rightarrow> string \<Rightarrow> property_value" where
  "read_period r key =
     (case map_of (periods r) key of
        Some x \<Rightarrow> PNumber x
      | None \<Rightarrow> if key \<in> set object_prototype_names then PInherited key else PUndefined)"

text \<open>\<open>obj[key]\<close>: a TypeError when \<open>obj\<close> is \<open>undefined\<close>.\<close>

definition get_period :: "metric_record option \<Rightarrow> string \<Rightarrow> js_error + property_value" where
  "get_period obj key =
     (case obj of None \<Rightarrow> Inl TypeError
      | Some r \<Rightarrow> Inr (read_period r key))"

text \<open>
  \<open>ToNumber\<close>: \<open>undefined\<close> gives NaN; a function, and \<open>Object.prototype\<close>, are turned
  into their text first, which is not the text of a number, so they give NaN too.
\<close>

definition to_number :: "property_value \<Rightarrow> jsnum" where
  "to_number v = (case v of PUndefined \<Rightarrow> JNaN | PNumber n \<Rightarrow> n | PInherited name \<Rightarrow> JNaN)"

definition bind_result :: "js_error + 'a \<Rightarrow> ('a \<Rightarrow> js_error + 'b) \<Rightarrow> js_error + 'b" where
  "bind_result r f = (case r of Inl err \<Rightarrow> Inl err | Inr x \<Rightarrow> f x)"

text \<open>\<open>Array.prototype.map\<close> with a callback that may throw: the first throw ends it.\<close>

fun array_map :: "('a \<Rightarrow> js_error + 'b) \<Rightarrow> 'a list \<Rightarrow> js_error + 'b list" where
  "array_map f [] = Inr []"
| "array_map f (x # xs) =
     bind_result (f x) (\<lambda>y. bind_result (array_map f xs) (\<lambda>ys. Inr (y # ys)))"

record series_point =
  year :: string
  revenue :: property_value
  nopbt :: property_value
  roic :: jsnum

text \<open>
  The projector. The source computes \<open>chartData\<close> once, from its constant \<open>data\<close>;
  here the table is the argument, and the constant of the source is \<open>chartData data\<close>.
\<close>

definition chartData :: "metric_record list \<Rightarrow> js_error + series_point list" where
  "chartData table =
     bind_result (object_keys (array_index table 0)) (\<lambda>keys.
       array_map
         (\<lambda>y.
            bind_result (get_period (array_index table 0) y) (\<lambda>v0.
            bind_result (get_period (array_index table 1) y) (\<lambda>v1.
            bind_result (get_period (array_index table 2) y) (\<lambda>v2.
              Inr \<lparr>year = y, revenue = v0, nopbt = v1,
                   roic = number_multiply (to_number v2) (decimal_literal 100 0)\<rparr>))))
         (filter (\<lambda>key. key \<noteq> ''metric'') keys))"

text \<open>The period keys of a record: its keys other than \<open>metric\<close>, in their order.\<close>

definition period_keys :: "metric_record \<Rightarrow> string list" where
  "period_keys r = filter (\<lambda>key. key \<noteq> ''metric'') (map fst (periods r))"

section \<open>The value formatter and the table cell\<close>

definition formatValue_options :: number_format_options where
  "formatValue_options =
     \<lparr>style = ''currency'', currency = ''USD'', minimumFractionDigits = 2,
      maximumFractionDigits = 2, number_notation = ''compact''\<rparr>"

text \<open>
  \<open>formatValue\<close> has no assignment, no property write and no call that writes: the
  heap it is given is the heap it leaves. After the \<open>typeof\<close> guard the value is a
  Number.
\<close>

definition formatValue ::
    "platform \<Rightarrow> heap \<Rightarrow> jsval \<Rightarrow> string \<Rightarrow> (js_error + jsval) \<times> heap" where
  "formatValue P h v metric_name =
     (if typeof v \<noteq> ''number'' then (Inr v, h)
      else case v of
        VNumber x \<Rightarrow>
          if string_includes metric_name ''ROIC'' \<or> string_includes metric_name ''Margins''
          then (case number_toFixed (number_to_string P)
                       (number_multiply x (decimal_literal 100 0)) 1 of
                  Inl err \<Rightarrow> (Inl err, h)
                | Inr s \<Rightarrow> (Inr (VString (s @ ''%'')), h))
          else (Inr (VString (intl_number_format P ''en-US'' formatValue_options x)), h)
      | _ \<Rightarrow> (Inr v, h))"

text \<open>The class of the cell: \<open>value < 0 ? 'text-red-500' : ''\<close>.\<close>

definition cell_className :: "jsnum \<Rightarrow> string" where
  "cell_className x =
     (if number_less_than x (decimal_literal 0 0) then ''text-red-500'' else '''')"

section \<open>The chart image export\<close>

record world =
  downloads :: "(string \<times> string) list"
  console_errors :: "(string \<times> js_error) list"

record anchor =
  download :: string
  href :: string

record toPng_options =
  quality :: jsnum

definition try_catch ::
    "(world \<Rightarrow> (js_error + unit) \<times> world) \<Rightarrow>
     (js_error \<Rightarrow> world \<Rightarrow> (js_error + unit) \<times> world) \<Rightarrow>
     world \<Rightarrow> (js_error + unit) \<times> world" where
  "try_catch body handler w =
     (case body w of
        (Inl err, w') \<Rightarrow> handler err w'
      | (Inr u, w') \<Rightarrow> (Inr u, w'))"

definition console_error :: "string \<Rightarrow> js_error \<Rightarrow> world \<Rightarrow> (js_error + unit) \<times> world" where
  "console_error msg err w = (Inr (), w\<lparr>console_errors := console_errors w @ [(msg, err)]\<rparr>)"

text \<open>\<open>link.click()\<close> on an anchor with a \<open>download\<close> attribute: the browser saves the file.\<close>

definition anchor_click :: "anchor \<Rightarrow> world \<Rightarrow> (js_error + unit) \<times> world" where
  "anchor_click link w =
     (Inr (), w\<lparr>downloads := downloads w @ [(download link, href link)]\<rparr>)"

text \<open>
  \<open>exportChartToImage\<close>: \<open>current\<close> is \<open>chartRef.current\<close> (\<open>None\<close> is \<open>null\<close>), and
  \<open>toPng\<close> is the library call, whose promise is fulfilled with a data URL (\<open>Inr\<close>)
  or rejected (\<open>Inl\<close>); \<open>await\<close> on a rejected promise throws inside the \<open>try\<close>. The
  result is how the promise of the function itself settles.
\<close>

definition exportChartToImage ::
    "('node \<Rightarrow> toPng_options \<Rightarrow> js_error + string) \<Rightarrow> 'node option \<Rightarrow> world \<Rightarrow>
     (js_error + unit) \<times> world" where
  "exportChartToImage toPng current w =
     (case current of
        None \<Rightarrow> (Inr (), w)
      | Some node \<Rightarrow>
          try_catch
            (\<lambda>w1. case toPng node \<lparr>quality = decimal_literal 95 2\<rparr> of
                     Inl err \<Rightarrow> (Inl err, w1)
                   | Inr dataUrl \<Rightarrow>
                       let link0 = \<lparr>download = '''', href = ''''\<rparr>;
                           link1 = link0\<lparr>download := ''financial_performance_trends.png''\<rparr>;
                           link2 = link1\<lparr>href := dataUrl\<rparr>
                       in anchor_click link2 w1)
            (\<lambda>err. console_error ''Error exporting chart to image:'' err)
            w)"

section \<open>Sample inputs\<close>

text \<open>
  The table of the scenario of the specification: Revenue, NOPBT and ROIC with the one
  period \<open>2017\<close>.
\<close>

definition scenario_2017 :: "metric_record list" where
  "scenario_2017 =
     [\<lparr>metric = ''Revenue'', periods = [(''2017'', decimal_literal 116909 2)]\<rparr>,
      \<lparr>metric = ''NOPBT'', periods = [(''2017'', decimal_literal 43627 2)]\<rparr>,
      \<lparr>metric = ''ROIC'', periods = [(''2017'', decimal_literal 5420 4)]\<rparr>]"

text \<open>A host whose two functions return fixed texts, and a heap with no object.\<close>

definition fixed_text_host :: platform where
  "fixed_text_host =
     \<lparr>intl_number_format = (\<lambda>locale options x. ''$''), number_to_string = (\<lambda>x. ''1e+21'')\<rparr>"

definition empty_heap :: heap where
  "empty_heap = (\<lambda>address. None)"

definition empty_world :: world where
  "empty_world = \<lparr>downloads = [], console_errors = []\<rparr>"

text \<open>A \<open>toPng\<close> whose promise is always rejected.\<close>

definition rejecting_toPng :: "unit \<Rightarrow> toPng_options \<Rightarrow> js_error + string" where
  "rejecting_toPng node options = Inl (Error ''cannot render'')"

section \<open>Rounding gives a nearest double\<close>

text \<open>
  \<open>round_double\<close> is checked against its meaning: a finite result is within half a
  unit of the last place of \<open>p / q\<close>, and has the form of the binary encoding.
\<close>

lemma ratio_scaled:
  assumes "0 < q"
  shows "real_of_int (p * 2 ^ nat (- e)) / real_of_int (q * 2 ^ nat e)
           = (real_of_int p / real_of_int q) * 2 powi (- e)"
proof (cases "0 \<le> e")
  case True
  then show ?thesis by (simp add: power_int_def power_inverse field_simps)
next
  case False
  then show ?thesis by (simp add: power_int_def power_inverse field_simps)
qed

lemma le_ratio_iff:
  assumes "0 < q"
  shows "q * 2 ^ nat k \<le> p * 2 ^ nat (- k) \<longleftrightarrow> 2 powi k \<le> real_of_int p / real_of_int q"
proof -
  have pos: "0 < real_of_int (q * 2 ^ nat k)" using assms by simp
  have "q * 2 ^ nat k \<le> p * 2 ^ nat (- k)
          \<longleftrightarrow> real_of_int (q * 2 ^ nat k) \<le> real_of_int (p * 2 ^ nat (- k))"
    by (simp only: of_int_le_iff)
  also have "\<dots> \<longleftrightarrow> 1 \<le> real_of_int (p * 2 ^ nat (- k)) / real_of_int (q * 2 ^ nat k)"
    using pos by (simp add: field_simps)
  also have "\<dots> \<longleftrightarrow> 1 \<le> (real_of_int p / real_of_int q) * 2 powi (- k)"
    by (simp only: ratio_scaled [OF assms])
  also have "\<dots> \<longleftrightarrow> 2 powi k \<le> real_of_int p / real_of_int q"
  proof -
    have "0 < (2::real) powi k" by (simp add: power_int_def)
    with assms show ?thesis by (simp add: power_int_minus field_simps)
  qed
  finally show ?thesis .
qed

lemma bitlen_real_bounds:
  assumes "0 < x"
  shows "2 powi (bitlen x - 1) \<le> real_of_int x" and "real_of_int x < 2 powi (bitlen x)"
proof -
  from assms have b1: "1 \<le> bitlen x" by (auto simp: bitlen_alt_def)
  from bitlen_bounds [OF assms]
  have "real_of_int (2 ^ nat (bitlen x - 1)) \<le> real_of_int x"
    and "real_of_int x < real_of_int (2 ^ nat (bitlen x))"
    by (simp_all only: of_int_le_iff of_int_less_iff)
  with b1 show "2 powi (bitlen x - 1) \<le> real_of_int x" and "real_of_int x < 2 powi (bitlen x)"
    by (simp_all add: power_int_def)
qed

lemma floor_log2_ratio:
  assumes "0 < p" and "0 < q"
  defines "d \<equiv> bitlen p - bitlen q"
  defines "e0 \<equiv> (if q * 2 ^ nat d \<le> p * 2 ^ nat (- d) then d else d - 1)"
  shows "2 powi e0 \<le> real_of_int p / real_of_int q"
    and "real_of_int p / real_of_int q < 2 powi (e0 + 1)"
proof -
  let ?r = "real_of_int p / real_of_int q"
  have qpos: "0 < real_of_int q" using assms(2) by simp
  have pw: "0 < (2::real) powi k" for k by (simp add: power_int_def)
  have lo: "(2::real) powi (d - 1) < ?r"
  proof -
    have "d - 1 = (bitlen p - 1) - bitlen q"
      by (simp add: d_def)
    then have "(2::real) powi (d - 1) = 2 powi (bitlen p - 1) / 2 powi (bitlen q)"
      by (simp only: power_int_diff [of "2::real", simplified])
    also have "\<dots> \<le> real_of_int p / 2 powi (bitlen q)"
      using bitlen_real_bounds(1) [OF assms(1)] pw by (intro divide_right_mono) (simp_all add: less_imp_le)
    also have "\<dots> < real_of_int p / real_of_int q"
      using bitlen_real_bounds(2) [OF assms(2)] assms(1) qpos pw
      by (intro divide_strict_left_mono) simp_all
    finally show ?thesis .
  qed
  have hi: "?r < 2 powi (d + 1)"
  proof -
    have "?r < 2 powi (bitlen p) / real_of_int q"
      using bitlen_real_bounds(2) [OF assms(1)] qpos by (simp add: divide_strict_right_mono)
    also have "\<dots> \<le> 2 powi (bitlen p) / 2 powi (bitlen q - 1)"
      using bitlen_real_bounds(1) [OF assms(2)] qpos pw
      by (intro divide_left_mono) (simp_all add: less_imp_le)
    also have "\<dots> = 2 powi (d + 1)"
    proof -
      have "d + 1 = bitlen p - (bitlen q - 1)"
        by (simp add: d_def)
      then show ?thesis
        by (simp only: power_int_diff [of "2::real", simplified])
    qed
    finally show ?thesis .
  qed
  show "2 powi e0 \<le> ?r"
    using lo le_ratio_iff [OF assms(2), of d p] by (simp add: e0_def)
  show "?r < 2 powi (e0 + 1)"
    using hi le_ratio_iff [OF assms(2), of d p] by (simp add: e0_def)
qed

lemma nearest_even_error:
  assumes "0 < den"
  shows "2 * \<bar>nearest_even num den * den - num\<bar> \<le> den"
proof -
  define qt where "qt = num div den"
  define r where "r = num mod den"
  have num: "num = qt * den + r"
    by (simp add: qt_def r_def)
  have r: "0 \<le> r" "r < den"
    using assms by (simp_all add: r_def)
  have "qt mod 2 = 0 \<or> qt mod 2 = 1" by presburger
  then show ?thesis
    unfolding nearest_even_def Let_def qt_def [symmetric] r_def [symmetric] num
    using r by (auto simp: algebra_simps)
qed

lemma nearest_even_lower:
  assumes "0 < den" and "a * den \<le> num"
  shows "a \<le> nearest_even num den"
proof -
  have "(a * den) div den \<le> num div den"
    using assms by (intro zdiv_mono1) simp_all
  with assms(1) have "a \<le> num div den"
    by simp
  moreover have "0 \<le> (num div den) mod 2" by simp
  ultimately show ?thesis
    unfolding nearest_even_def Let_def by auto
qed

lemma nearest_even_upper:
  assumes "0 < den" and "num \<le> b * den"
  shows "nearest_even num den \<le> b"
proof (cases "num = b * den")
  case True
  with assms(1) show ?thesis
    by (simp add: nearest_even_def Let_def)
next
  case False
  with assms(2) have "num < b * den" by simp
  moreover have "num div den * den \<le> num"
  proof -
    have "num = num div den * den + num mod den" by simp
    moreover have "0 \<le> num mod den" using assms(1) by simp
    ultimately show ?thesis by linarith
  qed
  ultimately have "num div den * den < b * den" by linarith
  with assms(1) have "num div den < b"
    by (simp add: mult_less_cancel_right)
  moreover have "(num div den) mod 2 \<le> 1"
    using pos_mod_bound [of 2 "num div den"] by simp
  ultimately show ?thesis
    unfolding nearest_even_def Let_def by auto
qed

lemma power_int_pos_two: "0 < (2::real) powi k"
  by (simp add: power_int_def)

lemma scaled_less_iff:
  assumes "0 < q"
  shows "p * 2 ^ nat (- e) < c * (q * 2 ^ nat e)
           \<longleftrightarrow> real_of_int p / real_of_int q < real_of_int c * 2 powi e"
proof -
  have den: "0 < real_of_int (q * 2 ^ nat e)" using assms by simp
  have "p * 2 ^ nat (- e) < c * (q * 2 ^ nat e)
          \<longleftrightarrow> real_of_int (p * 2 ^ nat (- e)) < real_of_int (c * (q * 2 ^ nat e))"
    by (simp only: of_int_less_iff)
  also have "\<dots> \<longleftrightarrow> real_of_int (p * 2 ^ nat (- e)) / real_of_int (q * 2 ^ nat e) < real_of_int c"
    using den by (simp add: field_simps)
  also have "\<dots> \<longleftrightarrow> (real_of_int p / real_of_int q) * 2 powi (- e) < real_of_int c"
    by (simp only: ratio_scaled [OF assms])
  also have "\<dots> \<longleftrightarrow> real_of_int p / real_of_int q < real_of_int c * 2 powi e"
    using power_int_pos_two [of e] assms by (simp add: power_int_minus field_simps)
  finally show ?thesis .
qed

lemma scaled_le_iff:
  assumes "0 < q"
  shows "c * (q * 2 ^ nat e) \<le> p * 2 ^ nat (- e)
           \<longleftrightarrow> real_of_int c * 2 powi e \<le> real_of_int p / real_of_int q"
  using scaled_less_iff [OF assms, of p e c] by (simp add: not_less [symmetric])

lemma half_error_real:
  fixes M N D :: real
  assumes "0 < D" and "2 * \<bar>M * D - N\<bar> \<le> D"
  shows "\<bar>M - N / D\<bar> \<le> 1 / 2"
proof -
  have eq: "M - N / D = (M * D - N) / D"
    using assms(1) by (simp add: field_simps)
  have "\<bar>(M * D - N) / D\<bar> = \<bar>M * D - N\<bar> / D"
    using assms(1) by (simp only: abs_divide abs_of_pos)
  with eq have "\<bar>M - N / D\<bar> = \<bar>M * D - N\<bar> / D"
    by (simp only:)
  also have "\<dots> \<le> 1 / 2"
    using assms by (simp only: pos_divide_le_eq) simp
  finally show ?thesis .
qed

lemma nearest_even_real_error:
  assumes "0 < q"
  shows "\<bar>real_of_int (nearest_even (p * 2 ^ nat (- e)) (q * 2 ^ nat e)) * 2 powi e
            - real_of_int p / real_of_int q\<bar> \<le> 2 powi e / 2"
proof -
  let ?num = "p * 2 ^ nat (- e)" and ?den = "q * 2 ^ nat e"
  let ?m = "nearest_even ?num ?den"
  have den: "0 < ?den" using assms by simp
  have rden: "0 < real_of_int ?den" using den by (simp only: of_int_0_less_iff)
  from nearest_even_error [OF den, of ?num]
  have "real_of_int (2 * \<bar>?m * ?den - ?num\<bar>) \<le> real_of_int ?den"
    by (simp only: of_int_le_iff)
  then have "2 * \<bar>real_of_int ?m * real_of_int ?den - real_of_int ?num\<bar> \<le> real_of_int ?den"
    by simp
  from half_error_real [OF rden this]
  have "\<bar>real_of_int ?m - real_of_int ?num / real_of_int ?den\<bar> \<le> 1 / 2" .
  then have half: "\<bar>real_of_int ?m - (real_of_int p / real_of_int q) * 2 powi (- e)\<bar> \<le> 1 / 2"
    by (simp only: ratio_scaled [OF assms])
  have pw: "0 < (2::real) powi e" by (rule power_int_pos_two)
  have "real_of_int ?m * 2 powi e - real_of_int p / real_of_int q
      = (real_of_int ?m - (real_of_int p / real_of_int q) * 2 powi (- e)) * 2 powi e"
    using pw by (simp add: power_int_minus field_simps)
  then have "\<bar>real_of_int ?m * 2 powi e - real_of_int p / real_of_int q\<bar>
      = \<bar>real_of_int ?m - (real_of_int p / real_of_int q) * 2 powi (- e)\<bar> * 2 powi e"
    using pw by (simp add: abs_mult)
  also have "\<dots> \<le> (1 / 2) * 2 powi e"
    using half pw by (intro mult_right_mono) simp_all
  finally show ?thesis by simp
qed

theorem round_double_nearest:
  assumes "0 < p" and "0 < q" and "round_double s p q = JFinite s' m e"
  shows "s' = s"
    and "\<bar>real_of_int m * 2 powi e - real_of_int p / real_of_int q\<bar> \<le> 2 powi e / 2"
    and "(2 ^ 52 \<le> m \<and> m < 2 ^ 53 \<and> - 1074 \<le> e \<and> e \<le> 971)
         \<or> (0 \<le> m \<and> m < 2 ^ 52 \<and> e = - 1074)"
proof -
  let ?r = "real_of_int p / real_of_int q"
  define d where "d = bitlen p - bitlen q"
  define e0 where "e0 = (if q * 2 ^ nat d \<le> p * 2 ^ nat (- d) then d else d - 1)"
  define e1 where "e1 = max (e0 - 52) (- 1074)"
  define m1 where "m1 = nearest_even (p * 2 ^ nat (- e1)) (q * 2 ^ nat e1)"
  have den: "0 < q * 2 ^ nat e1" using assms(2) by simp
  have lo: "2 powi e0 \<le> ?r"
    unfolding e0_def d_def by (rule floor_log2_ratio(1) [OF assms(1,2)])
  have hi: "?r < 2 powi (e0 + 1)"
    unfolding e0_def d_def by (rule floor_log2_ratio(2) [OF assms(1,2)])
  have rd: "round_double s p q =
      (if 971 < (if m1 = 2 ^ 53 then e1 + 1 else e1) then JInfinity s
       else JFinite s (if m1 = 2 ^ 53 then 2 ^ 52 else m1) (if m1 = 2 ^ 53 then e1 + 1 else e1))"
    unfolding round_double_def Let_def d_def e0_def e1_def m1_def
    using assms(1) by (intro if_not_P) simp
  have e1_ge: "e0 - 52 \<le> e1" "- 1074 \<le> e1" by (simp_all add: e1_def)
  have m1_nonneg: "0 \<le> m1"
    unfolding m1_def using den assms(1) by (intro nearest_even_lower) simp_all
  have "?r < 2 powi (e1 + 53)"
  proof -
    have "(2::real) powi (e0 + 1) \<le> 2 powi (e1 + 53)"
      using e1_ge(1) by (intro power_int_increasing) simp_all
    with hi show ?thesis by simp
  qed
  then have "?r < real_of_int (2 ^ 53) * 2 powi e1"
    by (simp add: power_int_add)
  then have "p * 2 ^ nat (- e1) < 2 ^ 53 * (q * 2 ^ nat e1)"
    by (simp only: scaled_less_iff [OF assms(2)])
  then have m1_le: "m1 \<le> 2 ^ 53"
    unfolding m1_def using den by (intro nearest_even_upper) simp_all
  have err: "\<bar>real_of_int m1 * 2 powi e1 - ?r\<bar> \<le> 2 powi e1 / 2"
    unfolding m1_def by (rule nearest_even_real_error [OF assms(2)])
  have range: "(e1 = e0 - 52 \<and> 2 ^ 52 \<le> m1) \<or> (e1 = - 1074 \<and> m1 \<le> 2 ^ 52)"
  proof (cases "- 1074 \<le> e0 - 52")
    case True
    then have e1: "e1 = e0 - 52" by (simp add: e1_def)
    have "real_of_int (2 ^ 52) * 2 powi e1 = 2 powi e0"
      by (simp add: e1 power_int_diff)
    with lo have "real_of_int (2 ^ 52) * 2 powi e1 \<le> ?r" by simp
    then have "2 ^ 52 * (q * 2 ^ nat e1) \<le> p * 2 ^ nat (- e1)"
      by (simp only: scaled_le_iff [OF assms(2)])
    then have "2 ^ 52 \<le> m1"
      unfolding m1_def using den by (intro nearest_even_lower) simp_all
    with e1 show ?thesis by simp
  next
    case False
    then have e1: "e1 = - 1074" by (simp add: e1_def)
    have "(2::real) powi (e0 + 1) \<le> 2 powi (e1 + 52)"
      using False e1 by (intro power_int_increasing) simp_all
    with hi have "?r < 2 powi (e1 + 52)" by simp
    then have "?r < real_of_int (2 ^ 52) * 2 powi e1"
      by (simp add: power_int_add)
    then have "p * 2 ^ nat (- e1) < 2 ^ 52 * (q * 2 ^ nat e1)"
      by (simp only: scaled_less_iff [OF assms(2)])
    then have "m1 \<le> 2 ^ 52"
      unfolding m1_def using den by (intro nearest_even_upper) simp_all
    with e1 show ?thesis by simp
  qed
  show "s' = s"
    using assms(3) rd by (simp split: if_splits)
  show "\<bar>real_of_int m * 2 powi e - ?r\<bar> \<le> 2 powi e / 2"
  proof (cases "m1 = 2 ^ 53")
    case True
    with assms(3) rd have me: "m = 2 ^ 52" "e = e1 + 1"
      by (simp_all split: if_splits)
    have "real_of_int m * 2 powi e = real_of_int m1 * 2 powi e1"
      by (simp add: me True power_int_add)
    moreover have "(2::real) powi e1 / 2 \<le> 2 powi e / 2"
      by (simp add: me power_int_add)
    ultimately show ?thesis using err by simp
  next
    case False
    with assms(3) rd have "m = m1" "e = e1"
      by (simp_all split: if_splits)
    with err show ?thesis by simp
  qed
  show "(2 ^ 52 \<le> m \<and> m < 2 ^ 53 \<and> - 1074 \<le> e \<and> e \<le> 971)
         \<or> (0 \<le> m \<and> m < 2 ^ 52 \<and> e = - 1074)"
  proof (cases "m1 = 2 ^ 53")
    case True
    with assms(3) rd have "m = 2 ^ 52" "e = e1 + 1" "\<not> 971 < e1 + 1"
      by (simp_all split: if_splits)
    with e1_ge(2) show ?thesis by simp
  next
    case False
    with assms(3) rd have me: "m = m1" "e = e1" "\<not> 971 < e1"
      by (simp_all split: if_splits)
    from False m1_le have "m1 < 2 ^ 53" by simp
    with range m1_nonneg e1_ge(2) me show ?thesis by auto
  qed
qed

text \<open>
  A literal is the double nearest to its decimal value, and the product of two
  doubles is the double nearest to the exact product.
\<close>

lemma decimal_literal_nearest:
  assumes "0 < digits" and "decimal_literal digits scale = JFinite s m e"
  shows "\<not> s"
    and "\<bar>real_of_int m * 2 powi e - real_of_int digits / 10 ^ scale\<bar> \<le> 2 powi e / 2"
proof -
  have q: "(0::int) < 10 ^ scale" by simp
  from assms(2) have rd: "round_double False digits (10 ^ scale) = JFinite s m e"
    by (simp add: decimal_literal_def)
  from round_double_nearest(1) [OF assms(1) q rd] show "\<not> s" by simp
  from round_double_nearest(2) [OF assms(1) q rd]
  show "\<bar>real_of_int m * 2 powi e - real_of_int digits / 10 ^ scale\<bar> \<le> 2 powi e / 2"
    by simp
qed

lemma number_multiply_nearest:
  assumes "0 < m" and "0 < n"
    and "number_multiply (JFinite s m e) (JFinite t n f) = JFinite u k g"
  shows "u = (s \<noteq> t)"
    and "\<bar>real_of_int k * 2 powi g
            - (real_of_int m * 2 powi e) * (real_of_int n * 2 powi f)\<bar> \<le> 2 powi g / 2"
proof -
  let ?p = "m * n * 2 ^ nat (e + f)" and ?q = "(2::int) ^ nat (- (e + f))"
  have p: "0 < ?p" using assms(1,2) by simp
  have q: "0 < ?q" by simp
  from assms(3) have rd: "round_double (s \<noteq> t) ?p ?q = JFinite u k g"
    by simp
  have scaled: "real_of_int (m * n * 2 ^ nat c) / real_of_int (2 ^ nat (- c))
      = real_of_int m * real_of_int n * 2 powi c" for c :: int
    by (cases "0 \<le> c") (simp_all add: power_int_def power_inverse field_simps)
  have "real_of_int ?p / real_of_int ?q = real_of_int m * real_of_int n * 2 powi (e + f)"
    by (rule scaled)
  also have "\<dots> = (real_of_int m * 2 powi e) * (real_of_int n * 2 powi f)"
    by (simp add: power_int_add)
  finally have ratio: "real_of_int ?p / real_of_int ?q
      = (real_of_int m * 2 powi e) * (real_of_int n * 2 powi f)" .
  from round_double_nearest(1) [OF p q rd] show "u = (s \<noteq> t)" .
  from round_double_nearest(2) [OF p q rd] ratio
  show "\<bar>real_of_int k * 2 powi g
            - (real_of_int m * 2 powi e) * (real_of_int n * 2 powi f)\<bar> \<le> 2 powi g / 2"
    by (simp only:)
qed

section \<open>Numbers of the source, evaluated\<close>

lemma roic_2017_times_100:
  "number_multiply (decimal_literal 5420 4) (decimal_literal 100 0) = decimal_literal 5420 2"
  by code_simp


lemma roic_2020_toFixed:
  "number_toFixed to_string
     (number_multiply (neg_literal 210 4) (decimal_literal 100 0)) 1 = Inr ''-2.1''"
  by code_simp

lemma nopbt_2020_finite_negative:
  "is_finite (neg_literal 2674 2) \<and> number_less_than (neg_literal 2674 2) (decimal_literal 0 0)"
  by code_simp

text \<open>
  The chart of the source, \<open>chartData data\<close>: twelve points, and the ROIC values as the
  double products give them (for 2018 the product of 0.6380 and 100 is the double
  63.800000000000004).
\<close>

lemma chartData_data:
  "chartData data =
     Inr [\<lparr>year = ''2017'', revenue = PNumber (decimal_literal 116909 2),
            nopbt = PNumber (decimal_literal 43627 2), roic = decimal_literal 542 1\<rparr>,
          \<lparr>year = ''2018'', revenue = PNumber (decimal_literal 137801 2),
            nopbt = PNumber (decimal_literal 49675 2),
            roic = decimal_literal 63800000000000004 15\<rparr>,
          \<lparr>year = ''2019'', revenue = PNumber (decimal_literal 126831 2),
            nopbt = PNumber (decimal_literal 39449 2), roic = decimal_literal 369 1\<rparr>,
          \<lparr>year = ''2020'', revenue = PNumber (decimal_literal 78274 2),
            nopbt = PNumber (neg_literal 2674 2), roic = neg_literal 21 1\<rparr>,
          \<lparr>year = ''2021'', revenue = PNumber (decimal_literal 105922 2),
            nopbt = PNumber (decimal_literal 29902 2), roic = decimal_literal 251 1\<rparr>,
          \<lparr>year = ''2022'', revenue = PNumber (decimal_literal 173874 2),
            nopbt = PNumber (decimal_literal 83702 2),
            roic = decimal_literal 61199999999999996 15\<rparr>,
          \<lparr>year = ''2023'', revenue = PNumber (decimal_literal 167662 2),
            nopbt = PNumber (decimal_literal 54970 2),
            roic = decimal_literal 34599999999999994 15\<rparr>,
          \<lparr>year = ''2024'', revenue = PNumber (decimal_literal 168733 2),
            nopbt = PNumber (decimal_literal 46213 2), roic = decimal_literal 257 1\<rparr>,
          \<lparr>year = ''2025'', revenue = PNumber (decimal_literal 165986 2),
            nopbt = PNumber (decimal_literal 61581 2),
            roic = decimal_literal 33900000000000006 15\<rparr>,
          \<lparr>year = ''2026'', revenue = PNumber (decimal_literal 164990 2),
            nopbt = PNumber (decimal_literal 61211 2), roic = decimal_literal 337 1\<rparr>,
          \<lparr>year = ''2027'', revenue = PNumber (decimal_literal 171755 2),
            nopbt = PNumber (decimal_literal 63721 2),
            roic = decimal_literal 34599999999999994 15\<rparr>,
          \<lparr>year = ''2028'', revenue = PNumber (decimal_literal 178625 2),
            nopbt = PNumber (decimal_literal 66270 2), roic = decimal_literal 355 1\<rparr>]"
  by code_simp

section \<open>The series projector: results and failures\<close>

lemma bind_result_simps [simp]:
  "bind_result (Inl err) f = Inl err"
  "bind_result (Inr x) f = f x"
  by (simp_all add: bind_result_def)

lemma array_map_all_ok:
  "(\<And>x. x \<in> set xs \<Longrightarrow> f x = Inr (g x)) \<Longrightarrow> array_map f xs = Inr (map g xs)"
  by (induction xs) simp_all

lemma filter_object_keys:
  "filter (\<lambda>key. key \<noteq> ''metric'') (map fst (periods r)) = period_keys r"
  by (simp add: period_keys_def)

lemma chartData_Nil: "chartData [] = Inl TypeError"
  by (simp add: chartData_def object_keys_def array_index_def)

lemma chartData_three_records:
  assumes "3 \<le> length table"
  shows "chartData table =
           Inr (map (\<lambda>y. \<lparr>year = y,
                           revenue = read_period (table ! 0) y,
                           nopbt = read_period (table ! 1) y,
                           roic = number_multiply (to_number (read_period (table ! 2) y))
                                    (decimal_literal 100 0)\<rparr>)
                  (period_keys (table ! 0)))"
proof -
  from assms have ix: "array_index table 0 = Some (table ! 0)"
    "array_index table 1 = Some (table ! 1)" "array_index table 2 = Some (table ! 2)"
    by (auto simp add: array_index_def)
  show ?thesis
    unfolding chartData_def ix
    by (simp add: object_keys_def get_period_def filter_object_keys array_map_all_ok)
qed

lemma chartData_no_period_keys:
  assumes "table \<noteq> []" and "period_keys (table ! 0) = []"
  shows "chartData table = Inr []"
proof -
  from assms have ix: "array_index table 0 = Some (table ! 0)"
    by (simp add: array_index_def)
  show ?thesis
    unfolding chartData_def ix using assms(2)
    by (simp add: object_keys_def filter_object_keys)
qed

lemma chartData_short_table_fails:
  assumes "table \<noteq> []" and "length table < 3" and "period_keys (table ! 0) \<noteq> []"
  shows "chartData table = Inl TypeError"
proof -
  from assms(1) have ix0: "array_index table 0 = Some (table ! 0)"
    by (simp add: array_index_def)
  from assms(3) obtain k ks where ks: "period_keys (table ! 0) = k # ks"
    by (cases "period_keys (table ! 0)") auto
  have "length table \<noteq> 0"
    using assms(1) by simp
  with assms(2) have "length table = 1 \<or> length table = 2"
    by arith
  then show ?thesis
  proof
    assume "length table = 1"
    then have ix1: "array_index table 1 = None" by (simp add: array_index_def)
    show ?thesis
      unfolding chartData_def ix0 ix1
      by (simp add: object_keys_def get_period_def filter_object_keys ks)
  next
    assume "length table = 2"
    then have ix: "array_index table 1 = Some (table ! 1)" "array_index table 2 = None"
      by (simp_all add: array_index_def)
    show ?thesis
      unfolding chartData_def ix0 ix
      by (simp add: object_keys_def get_period_def filter_object_keys ks)
  qed
qed

lemma years_of_points:
  "map year (map (\<lambda>y. \<lparr>year = y, revenue = a y, nopbt = b y, roic = c y\<rparr>) ks) = ks"
  by (induction ks) simp_all

text \<open>
  C5, as the code has it: a table with no record makes the projector fail. The first
  step reads the keys of \<open>data[0]\<close>, which is \<open>undefined\<close>, and \<open>Object.keys\<close> throws a
  TypeError; no sequence is produced.
\<close>

theorem chartData_empty_snapshot_fails: "chartData [] = Inl TypeError"
  by (simp add: chartData_def object_keys_def array_index_def)

text \<open>
  C5, as the specification states it (an empty table gives the empty sequence, without
  failure), does not hold: the result is the TypeError, not the empty sequence.
\<close>

theorem chartData_empty_snapshot_counterexample: "chartData [] \<noteq> Inr []"
  by (simp add: chartData_def object_keys_def array_index_def)

text \<open>
  C2, as the code has it: for every non-empty table that has at least three records, or
  whose first record has no period key, the projector returns one point per period key
  of the first record, in the order of those keys; so the number of points is the
  number of period keys of the first record.
\<close>

theorem chartData_one_point_per_period_key:
  assumes "table \<noteq> []" and "3 \<le> length table \<or> period_keys (table ! 0) = []"
  shows "\<exists>points. chartData table = Inr points
            \<and> map year points = period_keys (table ! 0)
            \<and> length points = length (period_keys (table ! 0))"
proof (cases "3 \<le> length table")
  case True
  show ?thesis
    unfolding chartData_three_records [OF True]
    by (simp add: years_of_points comp_def)
next
  case False
  with assms(2) have "period_keys (table ! 0) = []" by simp
  with assms(1) show ?thesis by (simp add: chartData_no_period_keys)
qed

theorem chartData_one_point_per_period_key_witness:
  "data \<noteq> [] \<and> 3 \<le> length data
   \<and> (\<exists>points. chartData data = Inr points
         \<and> map year points =
             [''2017'', ''2018'', ''2019'', ''2020'', ''2021'', ''2022'',
              ''2023'', ''2024'', ''2025'', ''2026'', ''2027'', ''2028'']
         \<and> length points = 12)"
proof -
  have ne: "data \<noteq> []" and three: "3 \<le> length data"
    by (simp_all add: data_def)
  have keys: "period_keys (data ! 0) =
      [''2017'', ''2018'', ''2019'', ''2020'', ''2021'', ''2022'',
       ''2023'', ''2024'', ''2025'', ''2026'', ''2027'', ''2028'']"
    by (simp add: data_def period_keys_def)
  from chartData_one_point_per_period_key [OF ne disjI1 [OF three]]
  obtain points where "chartData data = Inr points"
    and "map year points = period_keys (data ! 0)"
    and "length points = length (period_keys (data ! 0))"
    by blast
  with ne three keys show ?thesis
    by simp
qed

text \<open>
  C2, as the specification states it (for every non-empty table), does not hold: on a
  table of one record with the period \<open>2017\<close> the projector reads \<open>data[1][year]\<close>,
  where \<open>data[1]\<close> is \<open>undefined\<close>, and fails with a TypeError instead of returning one
  point.
\<close>

theorem chartData_single_record_counterexample:
  "chartData [\<lparr>metric = ''Revenue'', periods = [(''2017'', decimal_literal 116909 2)]\<rparr>]
     = Inl TypeError
   \<and> period_keys \<lparr>metric = ''Revenue'', periods = [(''2017'', decimal_literal 116909 2)]\<rparr>
     = [''2017'']"
  by (simp add: chartData_def object_keys_def get_period_def array_index_def period_keys_def)

text \<open>
  C3, as the code has it: the projector chooses by position, not by name. On a table of
  at least three records every point carries, for its period, the value of the first
  record as \<open>revenue\<close> and the value of the second as \<open>nopbt\<close>, both as they are read,
  and as \<open>roic\<close> the value of the third record multiplied by 100, whatever the names
  of the records are. On the scenario table (Revenue 1169.09, NOPBT 436.27, ROIC 0.5420
  in this order, for 2017) the result is the one point for 2017 with revenue 1169.09,
  nopbt 436.27 and roic 54.20: the product of the doubles 0.5420 and 100 is the double
  54.20.
\<close>

theorem chartData_third_record_times_100:
  "(3 \<le> length table \<longrightarrow>
      chartData table =
        Inr (map (\<lambda>y. \<lparr>year = y,
                        revenue = read_period (table ! 0) y,
                        nopbt = read_period (table ! 1) y,
                        roic = number_multiply (to_number (read_period (table ! 2) y))
                                 (decimal_literal 100 0)\<rparr>)
               (period_keys (table ! 0))))
   \<and> chartData scenario_2017 =
       Inr [\<lparr>year = ''2017'', revenue = PNumber (decimal_literal 116909 2),
             nopbt = PNumber (decimal_literal 43627 2), roic = decimal_literal 5420 2\<rparr>]"
proof
  show "3 \<le> length table \<longrightarrow>
      chartData table =
        Inr (map (\<lambda>y. \<lparr>year = y,
                        revenue = read_period (table ! 0) y,
                        nopbt = read_period (table ! 1) y,
                        roic = number_multiply (to_number (read_period (table ! 2) y))
                                 (decimal_literal 100 0)\<rparr>)
               (period_keys (table ! 0)))"
    using chartData_three_records by blast
next
  have "3 \<le> length scenario_2017"
    by (simp add: scenario_2017_def)
  from chartData_three_records [OF this]
  show "chartData scenario_2017 =
       Inr [\<lparr>year = ''2017'', revenue = PNumber (decimal_literal 116909 2),
             nopbt = PNumber (decimal_literal 43627 2), roic = decimal_literal 5420 2\<rparr>]"
    by (simp add: scenario_2017_def period_keys_def to_number_def read_period_def
        roic_2017_times_100)
qed

theorem chartData_third_record_times_100_witness:
  "3 \<le> length data
   \<and> chartData data =
       Inr (map (\<lambda>y. \<lparr>year = y,
                       revenue = read_period (data ! 0) y,
                       nopbt = read_period (data ! 1) y,
                       roic = number_multiply (to_number (read_period (data ! 2) y))
                                (decimal_literal 100 0)\<rparr>)
              (period_keys (data ! 0)))"
proof -
  have three: "3 \<le> length data"
    by (simp add: data_def)
  with chartData_third_record_times_100 [of data] show ?thesis
    by blast
qed

text \<open>
  C3, as the specification states it (every percentage-denominated metric selected
  into a series is multiplied by 100), does not hold: on the table ROIC 0.5420, Gross
  Margins 0.25, Revenue 1169.09 for 2017 the two percentage metrics are emitted as
  they are, 0.5420 and 0.25, which are not their products with 100, and Revenue is
  emitted multiplied by 100, as the double 116908.99999999999.
\<close>

theorem chartData_percentage_by_position_counterexample:
  "chartData
     [\<lparr>metric = ''ROIC'', periods = [(''2017'', decimal_literal 5420 4)]\<rparr>,
      \<lparr>metric = ''Gross Margins'', periods = [(''2017'', decimal_literal 25 2)]\<rparr>,
      \<lparr>metric = ''Revenue'', periods = [(''2017'', decimal_literal 116909 2)]\<rparr>]
     = Inr [\<lparr>year = ''2017'', revenue = PNumber (decimal_literal 5420 4),
              nopbt = PNumber (decimal_literal 25 2),
              roic = decimal_literal 11690899999999999 11\<rparr>]
   \<and> number_multiply (decimal_literal 5420 4) (decimal_literal 100 0) \<noteq> decimal_literal 5420 4
   \<and> number_multiply (decimal_literal 25 2) (decimal_literal 100 0) \<noteq> decimal_literal 25 2"
  by code_simp

text \<open>
  A table that is not rectangular: the first record owns the key \<open>toString\<close>, the other
  two do not, and read it from their prototype. The second value is emitted as that
  function, and the third, which is not a number, gives NaN.
\<close>

lemma chartData_inherited_property:
  "chartData
     [\<lparr>metric = ''Revenue'', periods = [(''toString'', decimal_literal 1 0)]\<rparr>,
      \<lparr>metric = ''NOPBT'', periods = []\<rparr>,
      \<lparr>metric = ''ROIC'', periods = []\<rparr>]
     = Inr [\<lparr>year = ''toString'', revenue = PNumber (decimal_literal 1 0),
              nopbt = PInherited ''toString'', roic = JNaN\<rparr>]"
  by code_simp

text \<open>
  C6, as the code has it: when one of the selected indices 0, 1, 2 is out of range
  (the table has fewer than three records), the projector fails with a TypeError if
  the table is empty or its first record has a period key, and returns the empty
  sequence if the first record has no period key. There is no condition of its own
  for an invalid selection; the failure is the TypeError of reading a property of
  \<open>undefined\<close>.
\<close>

theorem chartData_out_of_range:
  assumes "length table < 3"
  shows "chartData table =
           (if table = [] \<or> period_keys (table ! 0) \<noteq> [] then Inl TypeError else Inr [])"
  using assms chartData_Nil chartData_no_period_keys chartData_short_table_fails
  by (cases "table = []") auto

theorem chartData_out_of_range_witness:
  "length [\<lparr>metric = ''Revenue'', periods = [(''2017'', decimal_literal 116909 2)]\<rparr>,
           \<lparr>metric = ''NOPBT'', periods = [(''2017'', decimal_literal 43627 2)]\<rparr>] < 3
   \<and> chartData [\<lparr>metric = ''Revenue'', periods = [(''2017'', decimal_literal 116909 2)]\<rparr>,
                \<lparr>metric = ''NOPBT'', periods = [(''2017'', decimal_literal 43627 2)]\<rparr>]
       = Inl TypeError"
  using chartData_out_of_range
    [of "[\<lparr>metric = ''Revenue'', periods = [(''2017'', decimal_literal 116909 2)]\<rparr>,
          \<lparr>metric = ''NOPBT'', periods = [(''2017'', decimal_literal 43627 2)]\<rparr>]"]
  by (simp add: period_keys_def)

text \<open>
  C6, as the specification states it (an index out of range makes the projector fail),
  does not hold: on a table of one record without period keys the indices 1 and 2 are
  out of range and the projector returns the empty sequence.
\<close>

theorem chartData_out_of_range_counterexample:
  "array_index [\<lparr>metric = ''Revenue'', periods = []\<rparr>] 1 = None
   \<and> array_index [\<lparr>metric = ''Revenue'', periods = []\<rparr>] 2 = None
   \<and> chartData [\<lparr>metric = ''Revenue'', periods = []\<rparr>] = Inr []"
  by (simp add: chartData_def object_keys_def array_index_def)

section \<open>The value formatter: branches and texts\<close>



lemma length_decimal_digits: "0 < length (decimal_digits n)"
  by (subst decimal_digits.simps) simp

lemma fixed_notation_one_decimal:
  assumes "0 \<le> n"
  shows "fixed_notation n 1 = decimal_digits (n div 10) @ ''.'' @ [digit_char (n mod 10)]"
proof (cases "n < 10")
  case True
  with assms have "n div 10 = 0" "n mod 10 = n" by simp_all
  moreover have "decimal_digits n = [digit_char n]"
    using True by (subst decimal_digits.simps) simp
  moreover have "decimal_digits 0 = ''0''"
    by (subst decimal_digits.simps) (simp add: digit_char_def)
  ultimately show ?thesis
    by (simp add: fixed_notation_def)
next
  case False
  then have split: "decimal_digits n = decimal_digits (n div 10) @ [digit_char (n mod 10)]"
    by (subst decimal_digits.simps) simp
  have "0 < length (decimal_digits (n div 10))"
    by (rule length_decimal_digits)
  then show ?thesis
    unfolding fixed_notation_def split by (simp add: Let_def)
qed

lemma nearest_integer_nonneg: "0 \<le> p \<Longrightarrow> 0 < q \<Longrightarrow> 0 \<le> nearest_integer p q"
  unfolding nearest_integer_def by (intro pos_imp_zdiv_nonneg_iff [THEN iffD2]) simp_all

text \<open>
  \<open>toFixed(1)\<close> on a finite double of magnitude below \<open>10\<^sup>2\<^sup>1\<close>: the sign, the digits of
  the whole part, a point and one digit, for the nearest number of tenths.
\<close>

lemma number_toFixed_one_decimal:
  assumes "0 \<le> m" and "m * 2 ^ nat e < 10 ^ 21 * 2 ^ nat (- e)"
  shows "number_toFixed to_string (JFinite s m e) 1 =
           Inr ((if s \<and> m \<noteq> 0 then ''-'' else '''')
                @ decimal_digits (nearest_integer (m * 2 ^ nat e * 10) (2 ^ nat (- e)) div 10)
                @ ''.''
                @ [digit_char (nearest_integer (m * 2 ^ nat e * 10) (2 ^ nat (- e)) mod 10)])"
proof -
  have "0 \<le> nearest_integer (m * 2 ^ nat e * 10) (2 ^ nat (- e))"
    using assms(1) by (intro nearest_integer_nonneg) simp_all
  from fixed_notation_one_decimal [OF this] assms(2) show ?thesis
    by (simp add: number_toFixed_def Let_def)
qed

lemma typeof_number_iff: "typeof v = ''number'' \<longleftrightarrow> (\<exists>x. v = VNumber x)"
  by (cases v) simp_all

lemma number_toFixed_1_returns: "\<exists>s. number_toFixed to_string x 1 = Inr s"
  by (cases x) (simp_all add: number_toFixed_def Let_def)

lemma formatValue_not_number:
  "typeof v \<noteq> ''number'' \<Longrightarrow> formatValue P h v name = (Inr v, h)"
  by (simp add: formatValue_def)

lemma formatValue_percent_branch:
  assumes "string_includes name ''ROIC'' \<or> string_includes name ''Margins''"
    and "number_toFixed (number_to_string P) (number_multiply x (decimal_literal 100 0)) 1
           = Inr s"
  shows "formatValue P h (VNumber x) name = (Inr (VString (s @ ''%'')), h)"
  using assms by (simp add: formatValue_def)

lemma formatValue_currency_branch:
  assumes "\<not> (string_includes name ''ROIC'' \<or> string_includes name ''Margins'')"
  shows "formatValue P h (VNumber x) name =
           (Inr (VString (intl_number_format P ''en-US'' formatValue_options x)), h)"
  using assms by (simp add: formatValue_def)

lemma formatValue_number_is_string:
  "\<exists>s. formatValue P h (VNumber x) name = (Inr (VString s), h)"
proof (cases "string_includes name ''ROIC'' \<or> string_includes name ''Margins''")
  case True
  obtain s where "number_toFixed (number_to_string P)
      (number_multiply x (decimal_literal 100 0)) 1 = Inr s"
    using number_toFixed_1_returns by blast
  with True show ?thesis by (blast intro: formatValue_percent_branch)
next
  case False
  then show ?thesis by (blast intro: formatValue_currency_branch)
qed

text \<open>The cell is marked exactly when the raw value is less than 0.\<close>

lemma cell_className_negative:
  "cell_className x = ''text-red-500'' \<longleftrightarrow> number_less_than x (decimal_literal 0 0)"
  by (simp add: cell_className_def)

text \<open>
  The cell of NOPBT for 2020: the value \<open>-26.74\<close> goes to the currency formatter of
  the host, with the options of the source, and the cell is marked.
\<close>

lemma nopbt_2020_cell:
  "formatValue P h (VNumber (neg_literal 2674 2)) ''NOPBT (DEFAULT)'' =
     (Inr (VString (intl_number_format P ''en-US'' formatValue_options (neg_literal 2674 2))), h)
   \<and> cell_className (neg_literal 2674 2) = ''text-red-500''"
  using nopbt_2020_finite_negative by (simp add: formatValue_def cell_className_def)

text \<open>The match is on the exact characters: another case is another name.\<close>

lemma string_includes_case_sensitive:
  "\<not> string_includes ''Roic margins'' ''ROIC'' \<and> \<not> string_includes ''Roic margins'' ''Margins''"
  by simp



text \<open>
  C7: the formatter leaves the heap as it was; for every finite Number it returns a
  string, without throwing; and every value that is not a Number is returned as it is.
\<close>

theorem formatValue_never_throws_and_passes_through:
  "(is_finite x \<longrightarrow> (\<exists>s. formatValue P h (VNumber x) name = (Inr (VString s), h)))
   \<and> (typeof v \<noteq> ''number'' \<longrightarrow> formatValue P h v name = (Inr v, h))"
  using formatValue_number_is_string formatValue_not_number by blast

theorem formatValue_never_throws_and_passes_through_witness:
  "is_finite (neg_literal 2674 2)
   \<and> (\<exists>s. formatValue fixed_text_host empty_heap (VNumber (neg_literal 2674 2))
             ''NOPBT (DEFAULT)'' = (Inr (VString s), empty_heap))
   \<and> typeof (VString ''n/a'') \<noteq> ''number''
   \<and> formatValue fixed_text_host empty_heap (VString ''n/a'') ''NOPBT (DEFAULT)''
       = (Inr (VString ''n/a''), empty_heap)"
  using formatValue_never_throws_and_passes_through
    [where x = "neg_literal 2674 2" and v = "VString ''n/a''" and P = fixed_text_host
       and h = empty_heap and name = "''NOPBT (DEFAULT)''"]
    nopbt_2020_finite_negative
  by simp

text \<open>
  C10: for every Number, NaN and the infinities among them, the formatter returns a
  string and does not throw: the percentage text when the name contains \<open>ROIC\<close> or
  \<open>Margins\<close>, the text of the currency formatter of the host otherwise. The argument
  is returned as it is exactly when its \<open>typeof\<close> is not \<open>number\<close>.
\<close>

theorem formatValue_branch_by_typeof:
  "(\<exists>s. number_toFixed (number_to_string P)
           (number_multiply x (decimal_literal 100 0)) 1 = Inr s
       \<and> formatValue P h (VNumber x) name =
           (Inr (VString (if string_includes name ''ROIC'' \<or> string_includes name ''Margins''
                          then s @ ''%''
                          else intl_number_format P ''en-US'' formatValue_options x)), h))
   \<and> ((formatValue P h v name = (Inr v, h)) = (typeof v \<noteq> ''number''))"
proof
  obtain s where s: "number_toFixed (number_to_string P)
      (number_multiply x (decimal_literal 100 0)) 1 = Inr s"
    using number_toFixed_1_returns by blast
  show "\<exists>s. number_toFixed (number_to_string P)
           (number_multiply x (decimal_literal 100 0)) 1 = Inr s
       \<and> formatValue P h (VNumber x) name =
           (Inr (VString (if string_includes name ''ROIC'' \<or> string_includes name ''Margins''
                          then s @ ''%''
                          else intl_number_format P ''en-US'' formatValue_options x)), h)"
  proof (cases "string_includes name ''ROIC'' \<or> string_includes name ''Margins''")
    case True
    with formatValue_percent_branch [OF True s] s show ?thesis by auto
  next
    case False
    with formatValue_currency_branch [OF False] s show ?thesis by auto
  qed
next
  show "(formatValue P h v name = (Inr v, h)) = (typeof v \<noteq> ''number'')"
  proof (cases "typeof v = ''number''")
    case True
    then obtain y where v: "v = VNumber y" by (auto simp: typeof_number_iff)
    obtain s where "formatValue P h (VNumber y) name = (Inr (VString s), h)"
      using formatValue_number_is_string by blast
    with v True show ?thesis by simp
  next
    case False
    then show ?thesis by (simp add: formatValue_not_number)
  qed
qed

theorem formatValue_branch_by_typeof_witness:
  "formatValue fixed_text_host empty_heap (VNumber JNaN) ''Gross Margins''
     = (Inr (VString ''NaN%''), empty_heap)
   \<and> formatValue fixed_text_host empty_heap (VNumber (JInfinity True)) ''Revenue (DEFAULT)''
     = (Inr (VString ''$''), empty_heap)
   \<and> formatValue fixed_text_host empty_heap (VNumber JNaN) ''Gross Margins''
     \<noteq> (Inr (VNumber JNaN), empty_heap)
   \<and> formatValue fixed_text_host empty_heap VNull ''Gross Margins'' = (Inr VNull, empty_heap)"
  using formatValue_branch_by_typeof
    [where P = fixed_text_host and h = empty_heap and x = JNaN and v = "VNumber JNaN"
       and name = "''Gross Margins''"]
    formatValue_branch_by_typeof
    [where P = fixed_text_host and h = empty_heap and x = "JInfinity True" and v = VNull
       and name = "''Revenue (DEFAULT)''"]
    formatValue_branch_by_typeof
    [where P = fixed_text_host and h = empty_heap and x = JNaN and v = VNull
       and name = "''Gross Margins''"]
  by (simp add: number_toFixed_def fixed_text_host_def)

section \<open>The chart image export: failures\<close>

text \<open>
  C9, as the code has it: with the surface handle \<open>null\<close> the export returns at once and
  leaves the world as it was, so no file is produced and nothing is logged; when
  \<open>toPng\<close> fails, the failure is caught, logged on the console, no file is produced,
  and the export returns normally; and whatever the handle and \<open>toPng\<close> are, the
  export never ends with an error.
\<close>

theorem exportChartToImage_fails_gracefully:
  "exportChartToImage toPng None w = (Inr (), w)
   \<and> (toPng node \<lparr>quality = decimal_literal 95 2\<rparr> = Inl err \<longrightarrow>
        exportChartToImage toPng (Some node) w =
          (Inr (), w\<lparr>console_errors :=
                       console_errors w @ [(''Error exporting chart to image:'', err)]\<rparr>))
   \<and> fst (exportChartToImage toPng current w) = Inr ()"
  by (auto simp: exportChartToImage_def try_catch_def console_error_def anchor_click_def Let_def
      split: option.splits sum.splits)

theorem exportChartToImage_fails_gracefully_witness:
  "rejecting_toPng () \<lparr>quality = decimal_literal 95 2\<rparr> = Inl (Error ''cannot render'')
   \<and> exportChartToImage rejecting_toPng (Some ()) empty_world =
       (Inr (), \<lparr>downloads = [],
                 console_errors =
                   [(''Error exporting chart to image:'', Error ''cannot render'')]\<rparr>)
   \<and> exportChartToImage rejecting_toPng None empty_world = (Inr (), empty_world)"
  using exportChartToImage_fails_gracefully
    [where toPng = rejecting_toPng and node = "()" and w = empty_world
       and err = "Error ''cannot render''"]
  by (simp add: rejecting_toPng_def empty_world_def)

text \<open>
  C9, as the specification states it (an unavailable surface handle is a failure that
  is logged), does not hold: with the handle \<open>null\<close> the console is as empty after the
  export as it was before.
\<close>

theorem exportChartToImage_null_handle_counterexample:
  "console_errors (snd (exportChartToImage rejecting_toPng None empty_world)) = []"
  by (simp add: exportChartToImage_def empty_world_def)

end
